theory Spec2Isabelle
  imports Main "HOL-Library.Word"
begin

section \<open>Strings of the front end\<close>

text \<open>
  A JavaScript string is a sequence of UTF-16 code units; \<open>s.length\<close> counts code
  units, and a regular expression without the \<open>u\<close> flag matches one code unit per
  character class. The strings whose length and characters matter (the registration
  form's fields) are therefore lists of 16-bit words.
\<close>

type_synonym code_unit = "16 word"
type_synonym jsstring = "code_unit list"

text \<open>The character classes \<open>[a-z]\<close>, \<open>[A-Z]\<close>, \<open>[0-9]\<close> and \<open>[^a-zA-Z0-9]\<close>.\<close>

definition lower_class :: "code_unit \<Rightarrow> bool" where
  "lower_class c = (0x61 \<le> c \<and> c \<le> 0x7A)"

definition upper_class :: "code_unit \<Rightarrow> bool" where
  "upper_class c = (0x41 \<le> c \<and> c \<le> 0x5A)"

definition digit_class :: "code_unit \<Rightarrow> bool" where
  "digit_class c = (0x30 \<le> c \<and> c \<le> 0x39)"

definition other_class :: "code_unit \<Rightarrow> bool" where
  "other_class c = (\<not> (lower_class c \<or> upper_class c \<or> digit_class c))"

text \<open>
  \<open>/[cls]/.test(s)\<close> for a one-class pattern without flags: some code unit of \<open>s\<close>
  is in the class.
\<close>

definition regex_test :: "(code_unit \<Rightarrow> bool) \<Rightarrow> jsstring \<Rightarrow> bool" where
  "regex_test cls s = list_ex cls s"

section \<open>The registration page: \<open>getPasswordStrength\<close>\<close>

record strength =
  score :: nat
  label :: string
  color :: string

text \<open>\<open>if (cond) score++\<close>\<close>

definition bump :: "bool \<Rightarrow> nat \<Rightarrow> nat" where
  "bump cond sc = (if cond then sc + 1 else sc)"

definition password_score :: "jsstring \<Rightarrow> nat" where
  "password_score password =
     bump (regex_test other_class password)
       (bump (regex_test digit_class password)
         (bump (regex_test upper_class password)
           (bump (regex_test lower_class password)
             (bump (length password \<ge> 12)
               (bump (length password \<ge> 8) 0)))))"

definition getPasswordStrength :: "jsstring \<Rightarrow> strength" where
  "getPasswordStrength password =
     (let sc = password_score password in
      if sc \<le> 2 then \<lparr>score = sc, label = ''Weak'', color = ''bg-red-500''\<rparr>
      else if sc \<le> 4 then \<lparr>score = sc, label = ''Fair'', color = ''bg-yellow-500''\<rparr>
      else \<lparr>score = sc, label = ''Strong'', color = ''bg-green-500''\<rparr>)"

section \<open>The registration page: \<open>registerSchema\<close>\<close>

text \<open>
  The schema is built from the combinators of the zod validation library. A string
  schema runs each of its checks on the value and collects one issue (the check's
  message) per failed check; an object schema parses its fields in the order of its
  shape and collects their issues under the field's path; \<open>refine\<close> runs its predicate on
  the object and adds its issue at the given path when the predicate is false. Parsing
  succeeds exactly when no issue was collected.
\<close>

record issue =
  path :: string
  message :: string

type_synonym check = "jsstring \<Rightarrow> string list"

text \<open>\<open>.min(n, msg)\<close>: an issue when \<open>s.length < n\<close>.\<close>

definition min_check :: "nat \<Rightarrow> string \<Rightarrow> check" where
  "min_check n msg s = (if length s < n then [msg] else [])"

text \<open>\<open>.regex(re, msg)\<close>: an issue when \<open>re.test(s)\<close> is false.\<close>

definition regex_check :: "(code_unit \<Rightarrow> bool) \<Rightarrow> string \<Rightarrow> check" where
  "regex_check cls msg s = (if regex_test cls s then [] else [msg])"

text \<open>
  \<open>.email(msg)\<close>: an issue when the library's email pattern does not match. The pattern
  belongs to the library, so the test is a parameter.
\<close>

definition email_check :: "(jsstring \<Rightarrow> bool) \<Rightarrow> string \<Rightarrow> check" where
  "email_check is_email msg s = (if is_email s then [] else [msg])"

text \<open>A string field: all its checks, in order, under the field's path.\<close>

definition string_field :: "string \<Rightarrow> check list \<Rightarrow> jsstring \<Rightarrow> issue list" where
  "string_field p checks s =
     map (\<lambda>msg. \<lparr>path = p, message = msg\<rparr>) (concat (map (\<lambda>chk. chk s) checks))"

record registration =
  fullName :: jsstring
  email :: jsstring
  password :: jsstring
  confirmPassword :: jsstring

definition fullName_checks :: "check list" where
  "fullName_checks = [min_check 2 ''Name must be at least 2 characters'']"

definition email_checks :: "(jsstring \<Rightarrow> bool) \<Rightarrow> check list" where
  "email_checks is_email = [email_check is_email ''Please enter a valid email address'']"

definition password_checks :: "check list" where
  "password_checks =
     [min_check 8 ''Password must be at least 8 characters'',
      regex_check lower_class ''Password must contain a lowercase letter'',
      regex_check upper_class ''Password must contain an uppercase letter'',
      regex_check digit_class ''Password must contain a number'']"

definition confirmPassword_checks :: "check list" where
  "confirmPassword_checks = []"

definition object_issues :: "(jsstring \<Rightarrow> bool) \<Rightarrow> registration \<Rightarrow> issue list" where
  "object_issues is_email d =
     string_field ''fullName'' fullName_checks (fullName d)
     @ string_field ''email'' (email_checks is_email) (email d)
     @ string_field ''password'' password_checks (password d)
     @ string_field ''confirmPassword'' confirmPassword_checks (confirmPassword d)"

definition refine_issues :: "registration \<Rightarrow> issue list" where
  "refine_issues d =
     (if password d = confirmPassword d then []
      else [\<lparr>path = ''confirmPassword'', message = ''Passwords do not match''\<rparr>])"

text \<open>\<open>registerSchema.safeParse(d)\<close>: the issues (\<open>Inl\<close>) or the parsed data (\<open>Inr\<close>).\<close>

definition registerSchema :: "(jsstring \<Rightarrow> bool) \<Rightarrow> registration \<Rightarrow> issue list + registration" where
  "registerSchema is_email d =
     (let issues = object_issues is_email d @ refine_issues d in
      if issues = [] then Inr d else Inl issues)"

text \<open>The password rules of the schema hold for a string: its field collects no issue.\<close>

definition password_rules_met :: "jsstring \<Rightarrow> bool" where
  "password_rules_met s = (string_field ''password'' password_checks s = [])"

text \<open>A test double for the library's email pattern: the string holds an \<open>@\<close>.\<close>

definition has_at_sign :: "jsstring \<Rightarrow> bool" where
  "has_at_sign s = list_ex (\<lambda>c. c = 0x40) s"

section \<open>The API client: token storage and the response interceptor\<close>

text \<open>
  What the interceptors read and write of the browser: \<open>localStorage\<close> and
  \<open>window.location.href\<close>. Keys, tokens and URLs are opaque here.
\<close>

record browser =
  localStorage :: "string \<rightharpoonup> string"
  href :: string

definition getItem :: "browser \<Rightarrow> string \<Rightarrow> string option" where
  "getItem b k = localStorage b k"

definition setItem :: "browser \<Rightarrow> string \<Rightarrow> string \<Rightarrow> browser" where
  "setItem b k v = b\<lparr>localStorage := (localStorage b)(k \<mapsto> v)\<rparr>"

definition removeItem :: "browser \<Rightarrow> string \<Rightarrow> browser" where
  "removeItem b k = b\<lparr>localStorage := (localStorage b)(k := None)\<rparr>"

text \<open>
  The request configuration, as far as the interceptors touch it: the \<open>_retry\<close> flag
  (absent counts as false) and the \<open>Authorization\<close> header. The error carries
  \<open>error.response?.status\<close> and \<open>error.config\<close>.
\<close>

record config =
  retry :: bool
  authorization :: "string option"

record axios_error =
  status :: "nat option"
  config :: config

text \<open>
  The network. The server answers a request with a response or fails it (with the HTTP
  status of the error response, if there is one). The refresh endpoint rejects, or
  resolves with no data at all, or resolves with data whose \<open>access_token\<close> may be
  missing.
\<close>

datatype 'r reply = Response 'r | Failure "nat option"

datatype refresh_reply = Refresh_rejected | Refresh_no_data | Refresh_data "string option"

datatype 'r outcome = Resolved 'r | Rejected axios_error

text \<open>The calls that leave the client, in order.\<close>

datatype event = Refresh_post string | Request_sent config

text \<open>\<open>window\<close> is undefined when the code runs on the server.\<close>

record world =
  window :: "browser option"
  log :: "event list"

text \<open>Truthiness of what \<open>getItem\<close> returns: \<open>null\<close> and the empty string are falsy.\<close>

fun truthy :: "string option \<Rightarrow> bool" where
  "truthy None = False"
| "truthy (Some s) = (s \<noteq> [])"

text \<open>String conversion of a value that may be \<open>undefined\<close>.\<close>

fun to_string :: "string option \<Rightarrow> string" where
  "to_string None = ''undefined''"
| "to_string (Some s) = s"

text \<open>The request interceptor: attach the stored access token.\<close>

definition request_interceptor :: "browser option \<Rightarrow> config \<Rightarrow> config" where
  "request_interceptor win cfg =
     (case win of
        None \<Rightarrow> cfg
      | Some b \<Rightarrow>
          (let token = getItem b ''access_token'' in
           if truthy token then cfg\<lparr>authorization := Some (''Bearer '' @ the token)\<rparr>
           else cfg))"

text \<open>Both clearing paths of the response interceptor.\<close>

definition clear_and_redirect :: "browser \<Rightarrow> browser" where
  "clear_and_redirect b =
     (removeItem (removeItem b ''access_token'') ''refresh_token'')\<lparr>href := ''/login''\<rparr>"

text \<open>
  \<open>on_rejected\<close> is the error handler of the response interceptor; \<open>api\<close> sends a
  request through the client: request interceptor, server, response interceptor. The
  refresh call goes through plain \<open>axios\<close>, not through the client, so no interceptor
  runs on it. The configuration object keeps its \<open>_retry\<close> field when it is sent again.
\<close>

function on_rejected ::
    "(string \<Rightarrow> refresh_reply) \<Rightarrow> (config \<Rightarrow> 'r reply) \<Rightarrow> axios_error \<Rightarrow> world \<Rightarrow> 'r outcome \<times> world"
  and api ::
    "(string \<Rightarrow> refresh_reply) \<Rightarrow> (config \<Rightarrow> 'r reply) \<Rightarrow> config \<Rightarrow> world \<Rightarrow> 'r outcome \<times> world"
  where
  "on_rejected refresh server e w =
     (if status e = Some 401 \<and> window w \<noteq> None then
        (let b = the (window w);
             refreshToken = getItem b ''refresh_token'' in
         if truthy refreshToken \<and> \<not> retry (config e) then
           (let e1 = e\<lparr>config := (config e)\<lparr>retry := True\<rparr>\<rparr>;
                w1 = w\<lparr>log := log w @ [Refresh_post (the refreshToken)]\<rparr> in
            case refresh (the refreshToken) of
              Refresh_data access_token \<Rightarrow>
                api refresh server
                  ((config e1)\<lparr>authorization := Some (''Bearer '' @ to_string access_token)\<rparr>)
                  (w1\<lparr>window := Some (setItem b ''access_token'' (to_string access_token))\<rparr>)
            | _ \<Rightarrow> (Rejected e1, w1\<lparr>window := Some (clear_and_redirect b)\<rparr>))
         else (Rejected e, w\<lparr>window := Some (clear_and_redirect b)\<rparr>))
      else (Rejected e, w))"
| "api refresh server cfg w =
     (let cfg1 = request_interceptor (window w) cfg;
          w1 = w\<lparr>log := log w @ [Request_sent cfg1]\<rparr> in
      case server cfg1 of
        Response r \<Rightarrow> (Resolved r, w1)
      | Failure st \<Rightarrow> on_rejected refresh server \<lparr>status = st, config = cfg1\<rparr> w1)"
  by pat_completeness auto
termination
  by (relation "measure (\<lambda>x. case x of
        Inl (_, _, e, _) \<Rightarrow> (if retry (config e) then 0 else 2)
      | Inr (_, _, cfg, _) \<Rightarrow> (if retry cfg then 1 else 3))")
     (auto simp: request_interceptor_def Let_def split: option.splits)

declare on_rejected.simps [simp del] api.simps [simp del]

text \<open>Observations on the outcome.\<close>

fun is_refresh :: "event \<Rightarrow> bool" where
  "is_refresh (Refresh_post _) = True"
| "is_refresh (Request_sent _) = False"

definition refresh_attempts :: "world \<Rightarrow> nat" where
  "refresh_attempts w = length (filter is_refresh (log w))"

definition replays :: "world \<Rightarrow> nat" where
  "replays w = length (filter (\<lambda>ev. \<not> is_refresh ev) (log w))"

definition logged_out :: "world \<Rightarrow> bool" where
  "logged_out w =
     (case window w of
        None \<Rightarrow> False
      | Some b \<Rightarrow>
          getItem b ''access_token'' = None \<and> getItem b ''refresh_token'' = None
          \<and> href b = ''/login'')"

text \<open>The refresh call fails: it rejects, or its response has no data to destructure.\<close>

fun refresh_failed :: "refresh_reply \<Rightarrow> bool" where
  "refresh_failed (Refresh_data _) = False"
| "refresh_failed _ = True"

text \<open>Test doubles for the network, and a browser and an error to run the handler on.\<close>

definition refresh_ok :: "string \<Rightarrow> refresh_reply" where
  "refresh_ok t = Refresh_data (Some ''fresh'')"

definition refresh_down :: "string \<Rightarrow> refresh_reply" where
  "refresh_down t = Refresh_rejected"

definition server_401 :: "config \<Rightarrow> unit reply" where
  "server_401 cfg = Failure (Some 401)"

definition server_ok :: "config \<Rightarrow> unit reply" where
  "server_ok cfg = Response ()"

definition error_401 :: axios_error where
  "error_401 = \<lparr>status = Some 401, config = \<lparr>retry = False, authorization = Some ''Bearer stale''\<rparr>\<rparr>"

definition browser_with :: "string \<Rightarrow> browser" where
  "browser_with t =
     \<lparr>localStorage = [''access_token'' \<mapsto> ''stale'', ''refresh_token'' \<mapsto> t],
      href = ''/dashboard''\<rparr>"

definition world_with :: "string \<Rightarrow> world" where
  "world_with t = \<lparr>window = Some (browser_with t), log = []\<rparr>"

section \<open>Password strength\<close>

lemma password_score_le_6: "password_score p \<le> 6"
  unfolding password_score_def
  by (simp add: bump_def)

lemma password_rules_met_iff:
  "password_rules_met s \<longleftrightarrow>
     8 \<le> length s \<and> regex_test lower_class s \<and> regex_test upper_class s
       \<and> regex_test digit_class s"
  by (auto simp: password_rules_met_def string_field_def password_checks_def
      min_check_def regex_check_def)

lemma password_rules_score: "password_rules_met p \<Longrightarrow> 4 \<le> password_score p"
  unfolding password_rules_met_iff password_score_def
  by (simp add: bump_def)

text \<open>
  Claim C8. For every input string, \<open>getPasswordStrength\<close> returns a score between 0
  and 6; the label is \<open>Weak\<close> exactly when the score is at most 2, \<open>Fair\<close> exactly when
  it is 3 or 4, and \<open>Strong\<close> exactly when it is 5 or 6. Hence a password that passes
  the password rules of \<open>registerSchema\<close> (at least 8 code units, a lowercase letter,
  an uppercase letter and a digit) scores at least 4 and is never \<open>Weak\<close>.
\<close>

theorem getPasswordStrength_score_label:
  "score (getPasswordStrength p) \<le> 6
   \<and> (label (getPasswordStrength p) = ''Weak'' \<longleftrightarrow> score (getPasswordStrength p) \<le> 2)
   \<and> (label (getPasswordStrength p) = ''Fair'' \<longleftrightarrow>
        score (getPasswordStrength p) = 3 \<or> score (getPasswordStrength p) = 4)
   \<and> (label (getPasswordStrength p) = ''Strong'' \<longleftrightarrow>
        score (getPasswordStrength p) = 5 \<or> score (getPasswordStrength p) = 6)
   \<and> (password_rules_met p \<longrightarrow>
        4 \<le> score (getPasswordStrength p) \<and> label (getPasswordStrength p) \<noteq> ''Weak'')"
  using password_score_le_6 [of p] password_rules_score [of p]
  by (auto simp: getPasswordStrength_def Let_def)

text \<open>The password \<open>Abcdefg1\<close> passes the rules, scores 4 and is \<open>Fair\<close>.\<close>

theorem getPasswordStrength_score_label_witness:
  "password_rules_met [0x41, 0x62, 0x63, 0x64, 0x65, 0x66, 0x67, 0x31]
   \<and> score (getPasswordStrength [0x41, 0x62, 0x63, 0x64, 0x65, 0x66, 0x67, 0x31]) = 4
   \<and> label (getPasswordStrength [0x41, 0x62, 0x63, 0x64, 0x65, 0x66, 0x67, 0x31]) = ''Fair''"
  using getPasswordStrength_score_label [of "[0x41, 0x62, 0x63, 0x64, 0x65, 0x66, 0x67, 0x31]"]
  by (simp add: password_rules_met_iff regex_test_def lower_class_def upper_class_def
      digit_class_def other_class_def getPasswordStrength_def password_score_def bump_def)

section \<open>Registration schema\<close>

text \<open>
  Claim C9. Parsing a registration with \<open>registerSchema\<close> succeeds (and returns the
  data) if and only if the full name has at least 2 code units, the email is valid, the
  password has at least 8 code units and contains a lowercase letter, an uppercase
  letter and a digit, and the password equals the confirmation. In particular a
  registration whose password and confirmation differ never validates.
\<close>

theorem registerSchema_succeeds_iff:
  "(\<not> isl (registerSchema is_email d) \<longleftrightarrow>
       2 \<le> length (fullName d) \<and> is_email (email d)
     \<and> 8 \<le> length (password d) \<and> regex_test lower_class (password d)
     \<and> regex_test upper_class (password d) \<and> regex_test digit_class (password d)
     \<and> password d = confirmPassword d)
   \<and> (\<not> isl (registerSchema is_email d) \<longrightarrow> registerSchema is_email d = Inr d)
   \<and> (password d \<noteq> confirmPassword d \<longrightarrow> isl (registerSchema is_email d))"
  by (auto simp: registerSchema_def object_issues_def refine_issues_def string_field_def
      fullName_checks_def email_checks_def password_checks_def confirmPassword_checks_def
      min_check_def regex_check_def email_check_def Let_def)

text \<open>
  \<open>Al\<close>, \<open>a@b\<close>, \<open>Abcdefg1\<close> with the same confirmation parses; with the confirmation
  \<open>Abcdefg2\<close> it does not.
\<close>

theorem registerSchema_succeeds_iff_witness:
  "registerSchema has_at_sign
     \<lparr>fullName = [0x41, 0x6C], email = [0x61, 0x40, 0x62],
      password = [0x41, 0x62, 0x63, 0x64, 0x65, 0x66, 0x67, 0x31],
      confirmPassword = [0x41, 0x62, 0x63, 0x64, 0x65, 0x66, 0x67, 0x31]\<rparr>
   = Inr \<lparr>fullName = [0x41, 0x6C], email = [0x61, 0x40, 0x62],
      password = [0x41, 0x62, 0x63, 0x64, 0x65, 0x66, 0x67, 0x31],
      confirmPassword = [0x41, 0x62, 0x63, 0x64, 0x65, 0x66, 0x67, 0x31]\<rparr>
   \<and> isl (registerSchema has_at_sign
     \<lparr>fullName = [0x41, 0x6C], email = [0x61, 0x40, 0x62],
      password = [0x41, 0x62, 0x63, 0x64, 0x65, 0x66, 0x67, 0x31],
      confirmPassword = [0x41, 0x62, 0x63, 0x64, 0x65, 0x66, 0x67, 0x32]\<rparr>)"
  using registerSchema_succeeds_iff [of has_at_sign
      "\<lparr>fullName = [0x41, 0x6C], email = [0x61, 0x40, 0x62],
        password = [0x41, 0x62, 0x63, 0x64, 0x65, 0x66, 0x67, 0x31],
        confirmPassword = [0x41, 0x62, 0x63, 0x64, 0x65, 0x66, 0x67, 0x31]\<rparr>"]
    registerSchema_succeeds_iff [of has_at_sign
      "\<lparr>fullName = [0x41, 0x6C], email = [0x61, 0x40, 0x62],
        password = [0x41, 0x62, 0x63, 0x64, 0x65, 0x66, 0x67, 0x31],
        confirmPassword = [0x41, 0x62, 0x63, 0x64, 0x65, 0x66, 0x67, 0x32]\<rparr>"]
  by (simp add: has_at_sign_def regex_test_def lower_class_def upper_class_def digit_class_def)

section \<open>The response interceptor on a 401\<close>

lemma request_interceptor_retry: "retry (request_interceptor win cfg) = retry cfg"
  by (simp add: request_interceptor_def Let_def split: option.splits)

lemma logged_out_clear: "logged_out (w\<lparr>window := Some (clear_and_redirect b)\<rparr>)"
  by (simp add: logged_out_def clear_and_redirect_def removeItem_def getItem_def)

text \<open>No 401, or no \<open>window\<close>: the error is passed on and nothing else happens.\<close>

lemma on_rejected_other:
  assumes "status e \<noteq> Some 401 \<or> window w = None"
  shows "on_rejected refresh server e w = (Rejected e, w)"
  using assms by (auto simp: on_rejected.simps [of refresh server e w])

text \<open>A 401 with no usable refresh token, or on a request already retried.\<close>

lemma on_rejected_no_refresh:
  assumes "status e = Some 401" "window w = Some b"
    and "\<not> truthy (getItem b ''refresh_token'') \<or> retry (config e)"
  shows "on_rejected refresh server e w =
     (Rejected e, w\<lparr>window := Some (clear_and_redirect b)\<rparr>)"
  using assms by (auto simp: on_rejected.simps [of refresh server e w] Let_def)

text \<open>A 401 whose refresh call fails.\<close>

lemma on_rejected_refresh_failed:
  assumes "status e = Some 401" "window w = Some b"
    and "truthy (getItem b ''refresh_token'')" "\<not> retry (config e)"
    and "refresh_failed (refresh (the (getItem b ''refresh_token'')))"
  shows "on_rejected refresh server e w =
     (Rejected (e\<lparr>config := (config e)\<lparr>retry := True\<rparr>\<rparr>),
      w\<lparr>log := log w @ [Refresh_post (the (getItem b ''refresh_token''))],
        window := Some (clear_and_redirect b)\<rparr>)"
  using assms
  by (cases "refresh (the (getItem b ''refresh_token''))")
     (auto simp: on_rejected.simps [of refresh server e w] Let_def)

text \<open>A 401 whose refresh call succeeds: the request is sent again, marked as retried.\<close>

lemma on_rejected_refreshed:
  assumes "status e = Some 401" "window w = Some b"
    and "truthy (getItem b ''refresh_token'')" "\<not> retry (config e)"
    and "refresh (the (getItem b ''refresh_token'')) = Refresh_data a"
  shows "on_rejected refresh server e w =
     api refresh server
       (config e\<lparr>retry := True, authorization := Some (''Bearer '' @ to_string a)\<rparr>)
       (w\<lparr>log := log w @ [Refresh_post (the (getItem b ''refresh_token''))],
          window := Some (setItem b ''access_token'' (to_string a))\<rparr>)"
  using assms
  by (auto simp: on_rejected.simps [of refresh server e w] Let_def)

text \<open>Sending a request that is marked as retried makes one call and no refresh.\<close>

lemma api_retried_log:
  assumes "retry cfg"
  shows "log (snd (api refresh server cfg w)) =
     log w @ [Request_sent (request_interceptor (window w) cfg)]"
proof (cases "server (request_interceptor (window w) cfg)")
  case (Response r)
  then show ?thesis by (simp add: api.simps [of refresh server cfg w] Let_def)
next
  case (Failure st)
  let ?e = "\<lparr>status = st, config = request_interceptor (window w) cfg\<rparr>"
  let ?w = "w\<lparr>log := log w @ [Request_sent (request_interceptor (window w) cfg)]\<rparr>"
  have r: "retry (config ?e)" using assms by (simp add: request_interceptor_retry)
  have "log (snd (on_rejected refresh server ?e ?w)) = log ?w"
  proof (cases "status ?e = Some 401 \<and> window ?w \<noteq> None")
    case True
    then obtain b where b: "window ?w = Some b" by auto
    from True have s: "status ?e = Some 401" by simp
    show ?thesis using on_rejected_no_refresh [OF s b, of refresh server] r by simp
  next
    case False
    then show ?thesis using on_rejected_other [of ?e ?w refresh server] by auto
  qed
  with Failure show ?thesis by (simp add: api.simps [of refresh server cfg w] Let_def)
qed

text \<open>
  A retried request that fails with 401 again ends the session: the second run of the
  handler clears the tokens and redirects.
\<close>

lemma api_retried_401:
  assumes "retry cfg" "window w = Some b"
    and "server (request_interceptor (window w) cfg) = Failure (Some 401)"
  shows "logged_out (snd (api refresh server cfg w))"
proof -
  let ?e = "\<lparr>status = Some 401, config = request_interceptor (window w) cfg\<rparr>"
  let ?w = "w\<lparr>log := log w @ [Request_sent (request_interceptor (window w) cfg)]\<rparr>"
  have s: "status ?e = Some 401" by simp
  have b: "window ?w = Some b" using assms(2) by simp
  have r: "\<not> truthy (getItem b ''refresh_token'') \<or> retry (config ?e)"
    using assms(1) by (simp add: request_interceptor_retry)
  have "api refresh server cfg w = on_rejected refresh server ?e ?w"
    using assms(3) by (simp add: api.simps [of refresh server cfg w] Let_def)
  then show ?thesis
    using on_rejected_no_refresh [OF s b r, of refresh server] by (simp add: logged_out_clear)
qed

text \<open>
  Claim C10, as the code has it. For every error with status 401 that the response
  interceptor handles in a browser (\<open>window\<close> is defined):
  \<^item> if a non-empty refresh token is stored and the request has not been retried,
    exactly one refresh call is made and the request is sent again at most once;
  \<^item> if that refresh call fails, both tokens are removed, the browser is sent to
    \<open>/login\<close> and the request is not sent again;
  \<^item> if no refresh token is stored, or the stored one is empty, or the request has
    already been retried, both tokens are removed and the browser is sent to
    \<open>/login\<close>, with no refresh call and no request sent.
\<close>

theorem on_rejected_401:
  assumes "status e = Some 401" and "window w = Some b"
  shows "(truthy (getItem b ''refresh_token'') \<and> \<not> retry (config e) \<longrightarrow>
            refresh_attempts (snd (on_rejected refresh server e w)) = refresh_attempts w + 1
          \<and> replays (snd (on_rejected refresh server e w)) \<le> replays w + 1)
       \<and> (truthy (getItem b ''refresh_token'') \<and> \<not> retry (config e)
            \<and> refresh_failed (refresh (the (getItem b ''refresh_token''))) \<longrightarrow>
            logged_out (snd (on_rejected refresh server e w))
          \<and> replays (snd (on_rejected refresh server e w)) = replays w)
       \<and> (\<not> truthy (getItem b ''refresh_token'') \<or> retry (config e) \<longrightarrow>
            logged_out (snd (on_rejected refresh server e w))
          \<and> log (snd (on_rejected refresh server e w)) = log w)"
proof (intro conjI impI)
  assume h: "\<not> truthy (getItem b ''refresh_token'') \<or> retry (config e)"
  show "logged_out (snd (on_rejected refresh server e w))"
    using on_rejected_no_refresh [OF assms h, of refresh server] by (simp add: logged_out_clear)
  show "log (snd (on_rejected refresh server e w)) = log w"
    using on_rejected_no_refresh [OF assms h, of refresh server] by simp
next
  assume h: "truthy (getItem b ''refresh_token'') \<and> \<not> retry (config e)
            \<and> refresh_failed (refresh (the (getItem b ''refresh_token'')))"
  then have eq: "on_rejected refresh server e w =
     (Rejected (e\<lparr>config := (config e)\<lparr>retry := True\<rparr>\<rparr>),
      w\<lparr>log := log w @ [Refresh_post (the (getItem b ''refresh_token''))],
        window := Some (clear_and_redirect b)\<rparr>)"
    using on_rejected_refresh_failed [OF assms, of refresh server] by simp
  show "logged_out (snd (on_rejected refresh server e w))"
    unfolding eq by (simp add: logged_out_clear)
  show "replays (snd (on_rejected refresh server e w)) = replays w"
    unfolding eq by (simp add: replays_def)
next
  assume h: "truthy (getItem b ''refresh_token'') \<and> \<not> retry (config e)"
  let ?t = "the (getItem b ''refresh_token'')"
  have "refresh_attempts (snd (on_rejected refresh server e w)) = refresh_attempts w + 1
      \<and> replays (snd (on_rejected refresh server e w)) \<le> replays w + 1"
  proof (cases "refresh_failed (refresh ?t)")
    case True
    then show ?thesis
      using on_rejected_refresh_failed [OF assms, of refresh server] h
      by (simp add: refresh_attempts_def replays_def)
  next
    case False
    then obtain a where a: "refresh ?t = Refresh_data a"
      by (cases "refresh ?t") simp_all
    have eq: "on_rejected refresh server e w =
       api refresh server
         (config e\<lparr>retry := True, authorization := Some (''Bearer '' @ to_string a)\<rparr>)
         (w\<lparr>log := log w @ [Refresh_post ?t],
            window := Some (setItem b ''access_token'' (to_string a))\<rparr>)"
      using on_rejected_refreshed [of e w b refresh a server] assms h a by simp
    show ?thesis
      unfolding eq refresh_attempts_def replays_def
      by (simp add: api_retried_log)
  qed
  then show "refresh_attempts (snd (on_rejected refresh server e w)) = refresh_attempts w + 1"
    and "replays (snd (on_rejected refresh server e w)) \<le> replays w + 1" by simp_all
qed

text \<open>
  The three cases at a stale session: a refresh that succeeds followed by a second 401,
  a refresh endpoint that is down, and an empty stored refresh token.
\<close>

theorem on_rejected_401_witness:
  "status error_401 = Some 401
   \<and> window (world_with ''tok'') = Some (browser_with ''tok'')
   \<and> truthy (getItem (browser_with ''tok'') ''refresh_token'')
   \<and> \<not> retry (config error_401)
   \<and> refresh_attempts (snd (on_rejected refresh_ok server_401 error_401 (world_with ''tok''))) = 1
   \<and> replays (snd (on_rejected refresh_ok server_401 error_401 (world_with ''tok''))) \<le> 1
   \<and> refresh_failed (refresh_down (the (getItem (browser_with ''tok'') ''refresh_token'')))
   \<and> logged_out (snd (on_rejected refresh_down server_ok error_401 (world_with ''tok'')))
   \<and> replays (snd (on_rejected refresh_down server_ok error_401 (world_with ''tok''))) = 0
   \<and> window (world_with '''') = Some (browser_with '''')
   \<and> \<not> truthy (getItem (browser_with '''') ''refresh_token'')
   \<and> logged_out (snd (on_rejected refresh_ok server_ok error_401 (world_with '''')))
   \<and> log (snd (on_rejected refresh_ok server_ok error_401 (world_with ''''))) = []"
  using on_rejected_401 [of error_401 "world_with ''tok''" "browser_with ''tok''" refresh_ok server_401]
    on_rejected_401 [of error_401 "world_with ''tok''" "browser_with ''tok''" refresh_down server_ok]
    on_rejected_401 [of error_401 "world_with ''''" "browser_with ''''" refresh_ok server_ok]
  by (simp add: error_401_def world_with_def browser_with_def getItem_def refresh_down_def
      refresh_attempts_def replays_def)

text \<open>
  Claim C10 as it is written fails at two inputs. Where \<open>window\<close> is undefined
  (rendering on the server) a 401 is passed on and nothing is cleared or redirected:
  the handler's guard \<open>typeof window !== 'undefined'\<close> skips the whole block. And in a
  browser whose \<open>refresh_token\<close> entry holds the empty string, on a request not yet
  retried, no refresh call is made at all: the empty string is falsy.
\<close>

theorem on_rejected_401_counterexample:
  "status error_401 = Some 401
   \<and> on_rejected refresh_ok server_ok error_401 \<lparr>window = None, log = []\<rparr>
       = (Rejected error_401, \<lparr>window = None, log = []\<rparr>)
   \<and> getItem (browser_with '''') ''refresh_token'' = Some ''''
   \<and> \<not> retry (config error_401)
   \<and> refresh_attempts (snd (on_rejected refresh_ok server_ok error_401 (world_with ''''))) = 0"
  by (simp add: on_rejected.simps error_401_def world_with_def browser_with_def getItem_def
      refresh_attempts_def Let_def)

end
